theory Spec2Isabelle
  imports Complex_Main
begin

section \<open>Drawing surface and Python values\<close>

text \<open>
  The scripts \<^verbatim>\<open>flowchart_template.py\<close> and \<^verbatim>\<open>mindmap_template.py\<close> compute
  positions and hand shapes to matplotlib. The embedding keeps the arithmetic of the
  scripts and records every patch, text and line added to the axes, in the order of the
  calls. Python floats are modelled as the reals: the theorems below are about the exact
  arithmetic of the layout formulas, not about rounding. The output path, the figure size
  and the resolution only reach \<^verbatim>\<open>savefig\<close> and are left out.
\<close>

type_synonym point = "real \<times> real"

datatype error = IndexError | ZeroDivisionError

text \<open>
  What is added to the axes. The keyword arguments that are the same constant at every
  call of a kind (edge colour and line width of a shape, font weight, arrow style) are
  not recorded.
\<close>

datatype patch =
    Ellipse point real real string
      \<comment> \<open>centre, width, height, face colour\<close>
  | FancyBboxPatch point real real string string "real option"
      \<comment> \<open>lower left corner, width, height, box style, face colour, alpha\<close>
  | Polygon "point list" string
      \<comment> \<open>vertices, face colour\<close>
  | FancyArrowPatch point point string
      \<comment> \<open>tail, head, connection style\<close>
  | Text real real string real string string string
      \<comment> \<open>x, y, string, font size, colour, horizontal and vertical alignment\<close>
  | Line2D point point string real
      \<comment> \<open>both ends, colour, line width\<close>

text \<open>The dictionary returned by every shape function of the flowchart script.\<close>

record anchor =
  a_center :: point
  a_top :: point
  a_bottom :: point
  a_left :: point
  a_right :: point

text \<open>\<^verbatim>\<open>color or default\<close>: a missing (\<^verbatim>\<open>None\<close>) or empty colour gives the default.\<close>

definition py_or :: "string option \<Rightarrow> string \<Rightarrow> string" where
  "py_or c d = (case c of None \<Rightarrow> d | Some s \<Rightarrow> if s = [] then d else s)"

text \<open>
  \<^verbatim>\<open>xs[k]\<close> for an integer \<^verbatim>\<open>k\<close>: a negative index counts from the end of the list,
  and an index outside \<open>-len \<dots> len - 1\<close> raises \<^verbatim>\<open>IndexError\<close>.
\<close>

definition py_getitem :: "'a list \<Rightarrow> int \<Rightarrow> error + 'a" where
  "py_getitem xs k =
     (if 0 \<le> k \<and> k < int (length xs) then Inr (xs ! nat k)
      else if k < 0 \<and> - int (length xs) \<le> k then Inr (xs ! nat (int (length xs) + k))
      else Inl IndexError)"

section \<open>The flowchart script\<close>

subsection \<open>Colours\<close>

definition COLORS_start_end :: string where "COLORS_start_end = ''#2ECC71''"
definition COLORS_process :: string where "COLORS_process = ''#3498DB''"
definition COLORS_decision :: string where "COLORS_decision = ''#F39C12''"
definition COLORS_io :: string where "COLORS_io = ''#9B59B6''"
definition COLORS_text :: string where "COLORS_text = ''#FFFFFF''"

subsection \<open>Shape functions\<close>

text \<open>
  Each shape function adds its patch and its text to the axes and returns the anchor
  dictionary. The model returns what was added together with the anchors. The default
  values of the keyword arguments are passed by the callers below.
\<close>

definition draw_oval ::
  "real \<Rightarrow> real \<Rightarrow> string \<Rightarrow> real \<Rightarrow> real \<Rightarrow> string option \<Rightarrow> patch list \<times> anchor" where
  "draw_oval x y label width height color =
     (let color = py_or color COLORS_start_end;
          ellipse = Ellipse (x, y) width height color
      in ([ellipse, Text x y label 11 COLORS_text ''center'' ''center''],
          \<lparr>a_center = (x, y), a_top = (x, y + height / 2),
           a_bottom = (x, y - height / 2), a_left = (x - width / 2, y),
           a_right = (x + width / 2, y)\<rparr>))"

definition draw_rect ::
  "real \<Rightarrow> real \<Rightarrow> string \<Rightarrow> real \<Rightarrow> real \<Rightarrow> string option \<Rightarrow> patch list \<times> anchor" where
  "draw_rect x y label width height color =
     (let color = py_or color COLORS_process;
          box = FancyBboxPatch (x - width / 2, y - height / 2) width height
                  ''round,pad=0.05,rounding_size=0.15'' color None
      in ([box, Text x y label 10 COLORS_text ''center'' ''center''],
          \<lparr>a_center = (x, y), a_top = (x, y + height / 2),
           a_bottom = (x, y - height / 2), a_left = (x - width / 2, y),
           a_right = (x + width / 2, y)\<rparr>))"

definition draw_diamond ::
  "real \<Rightarrow> real \<Rightarrow> string \<Rightarrow> real \<Rightarrow> string option \<Rightarrow> patch list \<times> anchor" where
  "draw_diamond x y label size_arg color =
     (let color = py_or color COLORS_decision;
          half = size_arg / 2;
          vertices = [(x, y + half), (x + half, y), (x, y - half), (x - half, y)];
          diamond = Polygon vertices color
      in ([diamond, Text x y label 9 COLORS_text ''center'' ''center''],
          \<lparr>a_center = (x, y), a_top = (x, y + half),
           a_bottom = (x, y - half), a_left = (x - half, y),
           a_right = (x + half, y)\<rparr>))"

definition draw_parallelogram ::
  "real \<Rightarrow> real \<Rightarrow> string \<Rightarrow> real \<Rightarrow> real \<Rightarrow> real \<Rightarrow> string option
     \<Rightarrow> patch list \<times> anchor" where
  "draw_parallelogram x y label width height skew color =
     (let color = py_or color COLORS_io;
          offset = width * skew;
          vertices = [(x - width / 2 + offset, y + height / 2),
                      (x + width / 2 + offset, y + height / 2),
                      (x + width / 2 - offset, y - height / 2),
                      (x - width / 2 - offset, y - height / 2)];
          para = Polygon vertices color
      in ([para, Text x y label 10 COLORS_text ''center'' ''center''],
          \<lparr>a_center = (x, y), a_top = (x, y + height / 2),
           a_bottom = (x, y - height / 2), a_left = (x - width / 2, y),
           a_right = (x + width / 2, y)\<rparr>))"

definition draw_arrow :: "point \<Rightarrow> point \<Rightarrow> string \<Rightarrow> bool \<Rightarrow> patch list" where
  "draw_arrow start finish label curved =
     (let connectionstyle = (if curved then ''arc3,rad=0.2'' else ''arc3,rad=0'');
          arrow = FancyArrowPatch start finish connectionstyle
      in [arrow] @
         (if label \<noteq> [] then
            (let mid_x = (fst start + fst finish) / 2;
                 mid_y = (snd start + snd finish) / 2
             in [Text (mid_x + 0.2) mid_y label 9 ''#333'' ''left'' ''center''])
          else []))"

subsection \<open>Steps\<close>

text \<open>
  A step is a dictionary. The keys \<^verbatim>\<open>'type'\<close> and \<^verbatim>\<open>'text'\<close> are read with
  \<^verbatim>\<open>step[...]\<close> and have to be present; the others are read with \<^verbatim>\<open>step.get(...)\<close>,
  where a missing key and the value \<^verbatim>\<open>None\<close> are the same. The successor indices are
  Python integers.
\<close>

record step =
  s_type :: string
  s_text :: string
  s_next :: "int option"
  s_yes_to :: "int option"
  s_no_to :: "int option"
  s_branch :: "string option"

text \<open>
  One call \<^verbatim>\<open>draw_arrow(ax, start, end, label, curved)\<close> of the connection loop, with the
  defaults \<^verbatim>\<open>label=''\<close> and \<^verbatim>\<open>curved=False\<close> filled in.
\<close>

record arrow =
  arrow_start :: point
  arrow_end :: point
  arrow_label :: string
  arrow_curved :: bool

definition render_arrow :: "arrow \<Rightarrow> patch list" where
  "render_arrow a = draw_arrow (arrow_start a) (arrow_end a) (arrow_label a) (arrow_curved a)"

subsection \<open>\<^verbatim>\<open>create_flowchart\<close>\<close>

text \<open>
  The limits of the axes and the vertical spacing, computed from the number of steps:
  \<^verbatim>\<open>height = max(14, n_steps * 2.5)\<close>, \<^verbatim>\<open>width = 10\<close> and
  \<^verbatim>\<open>y_spacing = (height - 2) / (n_steps + 1)\<close>.
\<close>

definition flow_height :: "nat \<Rightarrow> real" where
  "flow_height n_steps = max 14 (real n_steps * 2.5)"

definition flow_width :: real where
  "flow_width = 10"

definition y_spacing :: "nat \<Rightarrow> real" where
  "y_spacing n_steps = (flow_height n_steps - 2) / (real n_steps + 1)"

text \<open>The body of the first loop: the position of step \<open>i\<close> and its shape.\<close>

definition place_step :: "nat \<Rightarrow> nat \<Rightarrow> step \<Rightarrow> patch list \<times> anchor" where
  "place_step n_steps i step =
     (let height = flow_height n_steps;
          x_center = flow_width / 2;
          y = height - 1 - (real i + 1) * y_spacing n_steps;
          x = (if s_branch step = Some ''yes'' then x_center - 2
               else if s_branch step = Some ''no'' then x_center + 2
               else x_center)
      in if s_type step \<in> set [''start'', ''end''] then draw_oval x y (s_text step) 2.5 1.0 None
         else if s_type step = ''process'' then draw_rect x y (s_text step) 3.0 1.2 None
         else if s_type step = ''decision'' then draw_diamond x y (s_text step) 1.8 None
         else if s_type step = ''io'' then draw_parallelogram x y (s_text step) 3.0 1.0 0.3 None
         else draw_rect x y (s_text step) 3.0 1.2 None)"

definition place_steps :: "step list \<Rightarrow> (patch list \<times> anchor) list" where
  "place_steps steps = map (\<lambda>(i, step). place_step (length steps) i step) (enumerate 0 steps)"

text \<open>
  \<^verbatim>\<open>if idx is not None and idx < len(nodes): draw_arrow(ax, nodes[i][side], nodes[idx]['top'], ...)\<close>:
  the guard compares with the length only, and the two subscripts are Python subscripts.
\<close>

definition connect ::
  "anchor list \<Rightarrow> nat \<Rightarrow> (anchor \<Rightarrow> point) \<Rightarrow> int option \<Rightarrow> string \<Rightarrow> bool
     \<Rightarrow> error + arrow list" where
  "connect nodes i side idx label curved =
     (case idx of
        None \<Rightarrow> Inr []
      | Some k \<Rightarrow>
          if k < int (length nodes) then
            (case py_getitem nodes (int i) of
               Inl e \<Rightarrow> Inl e
             | Inr src \<Rightarrow>
                 (case py_getitem nodes k of
                    Inl e \<Rightarrow> Inl e
                  | Inr dst \<Rightarrow>
                      Inr [\<lparr>arrow_start = side src, arrow_end = a_top dst,
                            arrow_label = label, arrow_curved = curved\<rparr>]))
          else Inr [])"

text \<open>The body of the second loop: the arrows drawn for step \<open>i\<close>.\<close>

definition connect_step :: "anchor list \<Rightarrow> nat \<Rightarrow> step \<Rightarrow> error + arrow list" where
  "connect_step nodes i step =
     (if s_type step = ''decision'' then
        (let yes_idx = s_yes_to step; no_idx = s_no_to step
         in case connect nodes i a_left yes_idx ''Yes'' True of
              Inl e \<Rightarrow> Inl e
            | Inr ys \<Rightarrow>
                (case connect nodes i a_right no_idx ''No'' True of
                   Inl e \<Rightarrow> Inl e
                 | Inr ns \<Rightarrow> Inr (ys @ ns)))
      else
        (let next_idx = s_next step
         in connect nodes i a_bottom next_idx [] False))"

text \<open>The second loop; the arrows are kept per step. The first error ends the run.\<close>

fun draw_connections :: "anchor list \<Rightarrow> nat \<Rightarrow> step list \<Rightarrow> error + arrow list list" where
  "draw_connections nodes i [] = Inr []"
| "draw_connections nodes i (step # rest) =
     (case connect_step nodes i step of
        Inl e \<Rightarrow> Inl e
      | Inr arrows \<Rightarrow>
          (case draw_connections nodes (Suc i) rest of
             Inl e \<Rightarrow> Inl e
           | Inr others \<Rightarrow> Inr (arrows # others)))"

text \<open>
  What a run of \<^verbatim>\<open>create_flowchart\<close> leaves behind: the limits of the axes, the list
  \<^verbatim>\<open>nodes\<close>, the calls of \<^verbatim>\<open>draw_arrow\<close> made for each step, and everything added to the
  axes, shapes first and arrows after them.
\<close>

record flowchart =
  fc_width :: real
  fc_height :: real
  fc_nodes :: "anchor list"
  fc_arrows :: "arrow list list"
  fc_patches :: "patch list"

definition create_flowchart :: "step list \<Rightarrow> error + flowchart" where
  "create_flowchart steps =
     (let n_steps = length steps;
          placed = place_steps steps;
          nodes = map snd placed
      in case draw_connections nodes 0 steps of
           Inl e \<Rightarrow> Inl e
         | Inr arrows \<Rightarrow>
             Inr \<lparr>fc_width = flow_width, fc_height = flow_height n_steps,
                  fc_nodes = nodes, fc_arrows = arrows,
                  fc_patches = concat (map fst placed) @ concat (map render_arrow (concat arrows))\<rparr>)"

subsection \<open>\<^verbatim>\<open>create_linear_flowchart\<close>\<close>

text \<open>
  The items are pairs of a type and a text. The loop appends to \<^verbatim>\<open>nodes\<close> and reads
  \<^verbatim>\<open>nodes[i-1]\<close>; the list and what was drawn so far are passed along.
\<close>

text \<open>The first half of the loop body: the position of item \<open>i\<close> and its shape.\<close>

definition place_item :: "real \<Rightarrow> nat \<Rightarrow> string \<times> string \<Rightarrow> patch list \<times> anchor" where
  "place_item height i item =
     (case item of
        (node_type, label) \<Rightarrow>
          (let y = height - 2 - real i * 2;
               x = 4
           in if node_type \<in> set [''start'', ''end''] then draw_oval x y label 2.5 1.0 None
              else if node_type = ''decision'' then draw_diamond x y label 1.8 None
              else if node_type = ''io'' then draw_parallelogram x y label 3.0 1.0 0.3 None
              else draw_rect x y label 3.0 1.2 None))"

fun linear_loop ::
  "real \<Rightarrow> nat \<Rightarrow> (string \<times> string) list \<Rightarrow> anchor list \<Rightarrow> patch list
     \<Rightarrow> error + anchor list \<times> patch list" where
  "linear_loop height i [] nodes drawn = Inr (nodes, drawn)"
| "linear_loop height i (item # rest) nodes drawn =
     (let (shape, node) = place_item height i item;
          nodes = nodes @ [node]
      in if i > 0 then
           (case py_getitem nodes (int i - 1) of
              Inl e \<Rightarrow> Inl e
            | Inr prev \<Rightarrow>
                linear_loop height (Suc i) rest nodes
                  (drawn @ shape @ draw_arrow (a_bottom prev) (a_top node) [] False))
         else linear_loop height (Suc i) rest nodes (drawn @ shape))"

text \<open>The height of the axes, the list \<^verbatim>\<open>nodes\<close> and everything added to the axes.\<close>

record linear_flowchart =
  lf_height :: real
  lf_nodes :: "anchor list"
  lf_patches :: "patch list"

definition create_linear_flowchart ::
  "(string \<times> string) list \<Rightarrow> string \<Rightarrow> error + linear_flowchart" where
  "create_linear_flowchart items title =
     (let height = real (length items) * 2 + 2;
          heading = (if title \<noteq> [] then
                       [Text 4 (height - 0.5) title 14 ''#2C3E50'' ''center'' ''top'']
                     else [])
      in case linear_loop height 0 items [] heading of
           Inl e \<Rightarrow> Inl e
         | Inr (nodes, drawn) \<Rightarrow>
             Inr \<lparr>lf_height = height, lf_nodes = nodes, lf_patches = drawn\<rparr>)"

section \<open>The mind map script\<close>

subsection \<open>Colours and drawing functions\<close>

definition COLORS_center :: string where "COLORS_center = ''#E74C3C''"
definition COLORS_branch1 :: string where "COLORS_branch1 = ''#3498DB''"
definition COLORS_branch2 :: string where "COLORS_branch2 = ''#2ECC71''"
definition COLORS_branch3 :: string where "COLORS_branch3 = ''#F39C12''"
definition COLORS_branch4 :: string where "COLORS_branch4 = ''#9B59B6''"
definition COLORS_branch5 :: string where "COLORS_branch5 = ''#1ABC9C''"

text \<open>\<^verbatim>\<open>COLORS[color_keys[i % len(color_keys)]]\<close>, with the five keys looked up.\<close>

definition color_keys :: "string list" where
  "color_keys = [COLORS_branch1, COLORS_branch2, COLORS_branch3, COLORS_branch4, COLORS_branch5]"

definition palette_color :: "nat \<Rightarrow> string" where
  "palette_color i = color_keys ! (i mod length color_keys)"

text \<open>\<^verbatim>\<open>text.split('\n')\<close>: the pieces between line feeds; at least one piece.\<close>

fun split_lines :: "string \<Rightarrow> string list" where
  "split_lines [] = [[]]"
| "split_lines (c # cs) =
     (if c = CHR 0x0A then [] # split_lines cs
      else (case split_lines cs of
              [] \<Rightarrow> [[c]]
            | l # ls \<Rightarrow> (c # l) # ls))"

definition draw_node ::
  "real \<Rightarrow> real \<Rightarrow> string \<Rightarrow> string \<Rightarrow> real \<Rightarrow> real \<Rightarrow> real \<Rightarrow> real \<Rightarrow> patch list" where
  "draw_node x y label color width height fontsize alpha =
     (let box = FancyBboxPatch (x - width / 2, y - height / 2) width height
                  ''round,pad=0.05,rounding_size=0.2'' color (Some alpha);
          lines = split_lines label;
          line_height = 0.25;
          start_y = y + (real (length lines) - 1) * line_height / 2
      in [box] @
         map (\<lambda>(i, line). Text x (start_y - real i * line_height) line fontsize
                              ''white'' ''center'' ''center'')
           (enumerate 0 lines))"

definition draw_connector :: "point \<Rightarrow> point \<Rightarrow> string \<Rightarrow> real \<Rightarrow> patch list" where
  "draw_connector start finish color linewidth = [Line2D start finish color linewidth]"

subsection \<open>Layout\<close>

definition radians :: "real \<Rightarrow> real" where
  "radians deg = deg * pi / 180"

text \<open>
  \<^verbatim>\<open>radial_layout\<close>: \<^verbatim>\<open>360 / count\<close> raises \<^verbatim>\<open>ZeroDivisionError\<close> for a count of zero,
  before the loop is reached.
\<close>

definition radial_layout :: "point \<Rightarrow> real \<Rightarrow> int \<Rightarrow> real \<Rightarrow> error + point list" where
  "radial_layout center radius count start_angle =
     (if count = 0 then Inl ZeroDivisionError
      else
        (let angle_step = 360 / real_of_int count
         in Inr (map (\<lambda>i.
                   (let angle = radians (start_angle + real i * angle_step);
                        x = fst center + radius * cos angle;
                        y = snd center + radius * sin angle
                    in (x, y)))
                 [0..<nat count])))"

subsection \<open>\<^verbatim>\<open>create_mindmap\<close>\<close>

text \<open>
  The data dictionary: \<^verbatim>\<open>'title'\<close>, \<^verbatim>\<open>'branches'\<close> and the \<^verbatim>\<open>'name'\<close> of a branch are
  read with a subscript; \<^verbatim>\<open>'header'\<close>, \<^verbatim>\<open>'color'\<close> and \<^verbatim>\<open>'children'\<close> are read with
  \<^verbatim>\<open>get\<close> and a default, so they are optional.
\<close>

record branch =
  b_name :: string
  b_color :: "string option"
  b_children :: "string list option"

record mindmap_data =
  d_title :: string
  d_header :: "string option"
  d_branches :: "branch list"

definition get_children :: "branch \<Rightarrow> string list" where
  "get_children b = (case b_children b of None \<Rightarrow> [] | Some cs \<Rightarrow> cs)"

text \<open>\<^verbatim>\<open>max(len(b.get('children', [])) for b in branches) if branches else 0\<close>\<close>

definition max_children :: "branch list \<Rightarrow> nat" where
  "max_children branches =
     (if branches \<noteq> [] then
        (case map (\<lambda>b. length (get_children b)) branches of
           [] \<Rightarrow> 0
         | c # cs \<Rightarrow> fold max cs c)
      else 0)"

text \<open>\<^verbatim>\<open>width = max(16, n_branches * 3)\<close> and \<^verbatim>\<open>height = max(12, 4 + max_children * 1.5)\<close>\<close>

definition canvas_width :: "branch list \<Rightarrow> real" where
  "canvas_width branches = max 16 (real (length branches) * 3)"

definition canvas_height :: "branch list \<Rightarrow> real" where
  "canvas_height branches = max 12 (4 + real (max_children branches) * 1.5)"

text \<open>
  The children of one branch: the positions computed in the inner loop. The script
  divides by \<^verbatim>\<open>np.linalg.norm(direction)\<close>; for a norm of zero numpy gives \<^verbatim>\<open>nan\<close> where
  HOL gives 0, but in \<^verbatim>\<open>create_mindmap\<close> the norm is the branch radius, which is at least
  4 (lemmas \<open>branch_radius_pos\<close> and \<open>circle_distance\<close>).
\<close>

definition place_children :: "point \<Rightarrow> point \<Rightarrow> nat \<Rightarrow> point list" where
  "place_children center pos n_children =
     (let direction = (fst pos - fst center, snd pos - snd center);
          magnitude = sqrt ((fst direction)\<^sup>2 + (snd direction)\<^sup>2);
          direction = (fst direction / magnitude, snd direction / magnitude);
          child_base = (fst pos + fst direction * 2, snd pos + snd direction * 2);
          perp = (- snd direction, fst direction);
          spread = 1.2
      in map (\<lambda>j.
            (let offset = (real j - (real n_children - 1) / 2) * spread
             in (fst child_base + fst perp * offset, snd child_base + snd perp * offset)))
          [0..<n_children])"

text \<open>The body of the loop over the branches: what is drawn, and where the children are.\<close>

definition draw_branch :: "point \<Rightarrow> nat \<Rightarrow> branch \<Rightarrow> point \<Rightarrow> patch list \<times> point list" where
  "draw_branch center i b pos =
     (let color = (case b_color b of None \<Rightarrow> palette_color i | Some c \<Rightarrow> c);
          children = get_children b;
          child_pos = (if children \<noteq> [] then place_children center pos (length children)
                       else [])
      in (draw_connector center pos color 3 @
          draw_node (fst pos) (snd pos) (b_name b) color 2.8 0.8 11 0.9 @
          concat (map (\<lambda>(child, p).
                    draw_connector pos p color 1.5 @
                    draw_node (fst p) (snd p) child color 2.2 0.6 9 0.85)
                  (zip children child_pos)),
          child_pos))"

text \<open>
  What a run of \<^verbatim>\<open>create_mindmap\<close> leaves behind: the limits of the axes, the centre, the
  positions of the branches, the positions of the children of each branch, and everything
  added to the axes.
\<close>

record mindmap =
  mm_width :: real
  mm_height :: real
  mm_center :: point
  mm_branch_positions :: "point list"
  mm_child_positions :: "point list list"
  mm_patches :: "patch list"

definition create_mindmap :: "mindmap_data \<Rightarrow> error + mindmap" where
  "create_mindmap data =
     (let n_branches = length (d_branches data);
          width = canvas_width (d_branches data);
          height = canvas_height (d_branches data);
          center = (width / 2, height / 2);
          central = draw_node (fst center) (snd center) (d_title data) COLORS_center
                      3.5 1.2 14 0.9;
          branch_radius = min width height / 3
      in case radial_layout center branch_radius (int n_branches) 90 of
           Inl e \<Rightarrow> Inl e
         | Inr branch_positions \<Rightarrow>
             (let drawn = map (\<lambda>(i, b, pos). draw_branch center i b pos)
                            (enumerate 0 (zip (d_branches data) branch_positions));
                  header = (case d_header data of None \<Rightarrow> [] | Some h \<Rightarrow> h)
              in Inr \<lparr>mm_width = width, mm_height = height, mm_center = center,
                      mm_branch_positions = branch_positions,
                      mm_child_positions = map snd drawn,
                      mm_patches =
                        central @ concat (map fst drawn) @
                        [Text (width / 2) (height - 0.5) header 16 ''#2C3E50''
                           ''center'' ''top'']\<rparr>))"

section \<open>Notions used in the statements\<close>

text \<open>
  The anchors as the specification words them: a centre and the four points half a
  width or half a height away from it.
\<close>

definition spec_anchor :: "real \<Rightarrow> real \<Rightarrow> real \<Rightarrow> real \<Rightarrow> anchor" where
  "spec_anchor x y w h =
     \<lparr>a_center = (x, y), a_top = (x, y + h / 2), a_bottom = (x, y - h / 2),
      a_left = (x - w / 2, y), a_right = (x + w / 2, y)\<rparr>"

definition mid :: "point \<Rightarrow> point \<Rightarrow> point" where
  "mid p q = ((fst p + fst q) / 2, (snd p + snd q) / 2)"

definition centred :: "anchor \<Rightarrow> bool" where
  "centred a \<longleftrightarrow>
     a_center a = mid (a_top a) (a_bottom a) \<and> a_center a = mid (a_left a) (a_right a)"

text \<open>
  A successor index that the guarded subscript accepts: missing, or not below
  \<open>- len\<close>. A step is accepted when the indices its type reads are.
\<close>

definition idx_ok :: "nat \<Rightarrow> int option \<Rightarrow> bool" where
  "idx_ok n idx = (case idx of None \<Rightarrow> True | Some k \<Rightarrow> - int n \<le> k)"

definition step_ok :: "nat \<Rightarrow> step \<Rightarrow> bool" where
  "step_ok n s =
     (if s_type s = ''decision'' then idx_ok n (s_yes_to s) \<and> idx_ok n (s_no_to s)
      else idx_ok n (s_next s))"

text \<open>A successor index that names no node: missing, or at least the length.\<close>

definition no_target :: "nat \<Rightarrow> int option \<Rightarrow> bool" where
  "no_target n idx = (case idx of None \<Rightarrow> True | Some k \<Rightarrow> int n \<le> k)"

text \<open>The types of the docstring of \<^verbatim>\<open>create_flowchart\<close>.\<close>

definition known_types :: "string list" where
  "known_types = [''start'', ''end'', ''process'', ''decision'', ''io'']"

text \<open>
  The distance of two points, the unit vector from the centre to a point, and the
  perpendicular offset of child \<open>j\<close> among \<open>n\<close> children with the spacing 1.2.
\<close>

definition distance :: "point \<Rightarrow> point \<Rightarrow> real" where
  "distance p q = sqrt ((fst p - fst q)\<^sup>2 + (snd p - snd q)\<^sup>2)"

definition unit_direction :: "point \<Rightarrow> point \<Rightarrow> point" where
  "unit_direction c p = ((fst p - fst c) / distance p c, (snd p - snd c) / distance p c)"

definition perp_offset :: "nat \<Rightarrow> nat \<Rightarrow> real" where
  "perp_offset j n = (real j - (real n - 1) / 2) * 1.2"

definition spec_child :: "point \<Rightarrow> point \<Rightarrow> nat \<Rightarrow> nat \<Rightarrow> point" where
  "spec_child c p n j =
     (let d = unit_direction c p;
          base = (fst p + 2 * fst d, snd p + 2 * snd d);
          perp = (- snd d, fst d)
      in (fst base + fst perp * perp_offset j n, snd base + snd perp * perp_offset j n))"

section \<open>Example inputs\<close>

text \<open>A flowchart with a decision: step 1 branches to step 2 (yes) and to step 3 (no).\<close>

definition login_steps :: "step list" where
  "login_steps =
     [\<lparr>s_type = ''start'', s_text = ''Start'', s_next = Some 1, s_yes_to = None,
       s_no_to = None, s_branch = None\<rparr>,
      \<lparr>s_type = ''decision'', s_text = ''Valid?'', s_next = None, s_yes_to = Some 2,
       s_no_to = Some 3, s_branch = None\<rparr>,
      \<lparr>s_type = ''process'', s_text = ''Grant'', s_next = Some 3, s_yes_to = None,
       s_no_to = None, s_branch = Some ''yes''\<rparr>,
      \<lparr>s_type = ''end'', s_text = ''End'', s_next = None, s_yes_to = None,
       s_no_to = None, s_branch = None\<rparr>]"

text \<open>A decision whose two targets are placed on the two sides.\<close>

definition branch_steps :: "step list" where
  "branch_steps =
     [\<lparr>s_type = ''decision'', s_text = ''Valid?'', s_next = None, s_yes_to = Some 1,
       s_no_to = Some 2, s_branch = None\<rparr>,
      \<lparr>s_type = ''process'', s_text = ''Grant'', s_next = None, s_yes_to = None,
       s_no_to = None, s_branch = Some ''yes''\<rparr>,
      \<lparr>s_type = ''process'', s_text = ''Deny'', s_next = None, s_yes_to = None,
       s_no_to = None, s_branch = Some ''no''\<rparr>]"

text \<open>One process step pointing at the index \<open>k\<close>, and one declaring a branch.\<close>

definition back_step :: "int \<Rightarrow> step" where
  "back_step k = \<lparr>s_type = ''process'', s_text = ''A'', s_next = Some k, s_yes_to = None,
                   s_no_to = None, s_branch = None\<rparr>"

definition side_step :: "string \<Rightarrow> step" where
  "side_step b = \<lparr>s_type = ''process'', s_text = ''B'', s_next = None, s_yes_to = None,
                   s_no_to = None, s_branch = Some b\<rparr>"

text \<open>Inputs with a type that the scripts do not know.\<close>

definition unknown_steps :: "step list" where
  "unknown_steps =
     [\<lparr>s_type = ''subprocess'', s_text = ''Sub'', s_next = None, s_yes_to = None,
       s_no_to = None, s_branch = None\<rparr>]"

definition unknown_items :: "(string \<times> string) list" where
  "unknown_items = [(''start'', ''Start''), (''subprocess'', ''Sub'')]"

text \<open>Mind maps: without branches, with one branch of three children, with five and six branches.\<close>

definition leaf :: "string \<Rightarrow> branch" where
  "leaf n = \<lparr>b_name = n, b_color = None, b_children = None\<rparr>"

definition empty_map :: mindmap_data where
  "empty_map = \<lparr>d_title = ''Topic'', d_header = None, d_branches = []\<rparr>"

definition one_branch :: mindmap_data where
  "one_branch =
     \<lparr>d_title = ''Topic'', d_header = None,
      d_branches = [\<lparr>b_name = ''B'', b_color = None,
                     b_children = Some [''x'', ''y'', ''z'']\<rparr>]\<rparr>"

definition five_branches :: mindmap_data where
  "five_branches =
     \<lparr>d_title = ''Topic'', d_header = None,
      d_branches = [leaf ''A'', leaf ''B'', leaf ''C'', leaf ''D'', leaf ''E'']\<rparr>"

definition wide_map :: mindmap_data where
  "wide_map =
     \<lparr>d_title = ''Topic'', d_header = Some ''Header'',
      d_branches =
        [leaf ''A'', leaf ''B'', leaf ''C'', leaf ''D'', leaf ''E'',
         \<lparr>b_name = ''F'', b_color = Some ''#000000'',
          b_children = Some [''1'', ''2'', ''3'', ''4'', ''5'', ''6'']\<rparr>]\<rparr>"

section \<open>Properties of the flowchart script\<close>

subsection \<open>Subscripts and the connection loop\<close>

lemma py_getitem_in_range:
  "0 \<le> k \<Longrightarrow> k < int (length xs) \<Longrightarrow> py_getitem xs k = Inr (xs ! nat k)"
  by (simp add: py_getitem_def)

lemma py_getitem_nat:
  "i < length xs \<Longrightarrow> py_getitem xs (int i) = Inr (xs ! i)"
  by (simp add: py_getitem_def)

lemma connect_None: "connect nodes i side None l c = Inr []"
  by (simp add: connect_def)

lemma connect_past_end:
  "int (length nodes) \<le> k \<Longrightarrow> connect nodes i side (Some k) l c = Inr []"
  by (simp add: connect_def)

lemma connect_in_range:
  assumes "0 \<le> k" "k < int (length nodes)" "i < length nodes"
  shows "connect nodes i side (Some k) l c =
           Inr [\<lparr>arrow_start = side (nodes ! i), arrow_end = a_top (nodes ! nat k),
                 arrow_label = l, arrow_curved = c\<rparr>]"
  using assms by (simp add: connect_def py_getitem_in_range py_getitem_nat)

lemma draw_connections_nth:
  "draw_connections nodes i steps = Inr ars \<Longrightarrow>
     length ars = length steps \<and>
     (\<forall>j<length steps. connect_step nodes (i + j) (steps ! j) = Inr (ars ! j))"
proof (induction steps arbitrary: i ars)
  case Nil
  then show ?case by simp
next
  case (Cons s rest)
  from Cons.prems obtain a others where
    a: "connect_step nodes i s = Inr a" and
    r: "draw_connections nodes (Suc i) rest = Inr others" and
    ars: "ars = a # others"
    by (auto split: sum.splits)
  from Cons.IH[OF r] have len: "length others = length rest"
    and nth: "\<And>j. j < length rest \<Longrightarrow> connect_step nodes (Suc i + j) (rest ! j) = Inr (others ! j)"
    by auto
  show ?case
  proof (intro conjI allI impI)
    show "length ars = length (s # rest)" using len ars by simp
  next
    fix j assume "j < length (s # rest)"
    then show "connect_step nodes (i + j) ((s # rest) ! j) = Inr (ars ! j)"
      using a nth ars by (cases j) auto
  qed
qed

lemma length_place_steps: "length (place_steps steps) = length steps"
  by (simp add: place_steps_def)

lemma nth_place_steps:
  "i < length steps \<Longrightarrow> place_steps steps ! i = place_step (length steps) i (steps ! i)"
  by (simp add: place_steps_def nth_enumerate_eq)

lemma create_flowchart_Inr:
  assumes "create_flowchart steps = Inr fc"
  shows "fc_nodes fc = map snd (place_steps steps)"
    and "draw_connections (map snd (place_steps steps)) 0 steps = Inr (fc_arrows fc)"
    and "fc_height fc = flow_height (length steps)"
    and "fc_width fc = flow_width"
  using assms by (auto simp: create_flowchart_def Let_def split: sum.splits)

lemma fc_arrows_nth:
  assumes "create_flowchart steps = Inr fc" "i < length steps"
  shows "connect_step (fc_nodes fc) i (steps ! i) = Inr (fc_arrows fc ! i)"
    and "length (fc_nodes fc) = length steps"
    and "length (fc_arrows fc) = length steps"
  using draw_connections_nth[OF create_flowchart_Inr(2)[OF assms(1)]] assms(2)
    create_flowchart_Inr(1)[OF assms(1)]
  by (auto simp: length_place_steps)

lemma login_nodes:
  "map snd (place_steps login_steps) =
     [snd (draw_oval 5 10.6 ''Start'' 2.5 1.0 None),
      snd (draw_diamond 5 8.2 ''Valid?'' 1.8 None),
      snd (draw_rect 3 5.8 ''Grant'' 3.0 1.2 None),
      snd (draw_oval 5 3.4 ''End'' 2.5 1.0 None)]"
  by (simp add: login_steps_def place_steps_def enumerate_eq_zip place_step_def
      upt_rec[of 0] upt_rec[of 1] upt_rec[of 2] upt_rec[of 3]
      flow_height_def flow_width_def y_spacing_def)

lemma login_returns: "\<exists>fc. create_flowchart login_steps = Inr fc"
  unfolding create_flowchart_def Let_def login_nodes
  by (simp add: login_steps_def connect_step_def connect_def py_getitem_def)

lemma py_getitem_returns:
  "- int (length xs) \<le> k \<Longrightarrow> k < int (length xs) \<Longrightarrow> \<exists>x. py_getitem xs k = Inr x"
  by (simp add: py_getitem_def)

lemma py_getitem_raises:
  "k < - int (length xs) \<Longrightarrow> py_getitem xs k = Inl IndexError"
  by (simp add: py_getitem_def)

lemma connect_returns:
  assumes "i < length nodes" and "idx_ok (length nodes) idx"
  shows "\<exists>ars. connect nodes i side idx l c = Inr ars"
proof (cases idx)
  case None
  then show ?thesis by (simp add: connect_def)
next
  case (Some k)
  show ?thesis
  proof (cases "k < int (length nodes)")
    case True
    with assms(2) Some obtain dst where "py_getitem nodes k = Inr dst"
      using py_getitem_returns[of nodes k] by (auto simp: idx_ok_def)
    then show ?thesis
      using Some True assms(1) by (simp add: connect_def py_getitem_nat)
  next
    case False
    then show ?thesis using Some by (simp add: connect_def)
  qed
qed

lemma connect_raises:
  assumes "i < length nodes" and "\<not> idx_ok (length nodes) idx"
  shows "connect nodes i side idx l c = Inl IndexError"
proof -
  from assms(2) obtain k where k: "idx = Some k" "k < - int (length nodes)"
    by (cases idx) (simp_all add: idx_ok_def)
  then have "k < int (length nodes)" by simp
  then show ?thesis
    using k assms(1) by (simp add: connect_def py_getitem_nat py_getitem_raises)
qed

lemma connect_step_returns_iff:
  assumes "i < length nodes"
  shows "(\<exists>ars. connect_step nodes i s = Inr ars) \<longleftrightarrow> step_ok (length nodes) s"
proof (cases "s_type s = ''decision''")
  case True
  show ?thesis
  proof (cases "idx_ok (length nodes) (s_yes_to s)")
    case y: True
    from connect_returns[OF assms y] obtain ys where
      ys: "connect nodes i a_left (s_yes_to s) ''Yes'' True = Inr ys" by blast
    show ?thesis
    proof (cases "idx_ok (length nodes) (s_no_to s)")
      case n: True
      from connect_returns[OF assms n] obtain ns where
        "connect nodes i a_right (s_no_to s) ''No'' True = Inr ns" by blast
      then have "connect_step nodes i s = Inr (ys @ ns)"
        using True ys by (simp add: connect_step_def)
      then show ?thesis using True y n by (simp add: step_ok_def)
    next
      case n: False
      from connect_raises[OF assms n]
      have "connect_step nodes i s = Inl IndexError"
        using True ys by (simp add: connect_step_def)
      then show ?thesis using True n by (simp add: step_ok_def)
    qed
  next
    case y: False
    from connect_raises[OF assms y]
    have "connect_step nodes i s = Inl IndexError"
      using True by (simp add: connect_step_def)
    then show ?thesis using True y by (simp add: step_ok_def)
  qed
next
  case False
  show ?thesis
  proof (cases "idx_ok (length nodes) (s_next s)")
    case True
    from connect_returns[OF assms True] obtain ns where
      "connect nodes i a_bottom (s_next s) [] False = Inr ns" by blast
    then have "connect_step nodes i s = Inr ns"
      using False by (simp add: connect_step_def)
    then show ?thesis using False True by (simp add: step_ok_def)
  next
    case n: False
    from connect_raises[OF assms n]
    have "connect_step nodes i s = Inl IndexError"
      using False by (simp add: connect_step_def)
    then show ?thesis using False n by (simp add: step_ok_def)
  qed
qed

lemma draw_connections_returns:
  assumes "k + length steps \<le> length nodes"
    and "\<forall>s\<in>set steps. step_ok (length nodes) s"
  shows "\<exists>ars. draw_connections nodes k steps = Inr ars"
  using assms
proof (induction steps arbitrary: k)
  case Nil
  then show ?case by simp
next
  case (Cons s rest)
  have "k < length nodes" using Cons.prems(1) by simp
  with Cons.prems(2) obtain a where a: "connect_step nodes k s = Inr a"
    using connect_step_returns_iff[of k nodes s] by auto
  from Cons.IH[of "Suc k"] Cons.prems
  obtain others where "draw_connections nodes (Suc k) rest = Inr others" by auto
  with a show ?case by simp
qed

lemma create_flowchart_returns_iff:
  "(\<exists>fc. create_flowchart steps = Inr fc) \<longleftrightarrow> (\<forall>s\<in>set steps. step_ok (length steps) s)"
proof
  assume "\<exists>fc. create_flowchart steps = Inr fc"
  then obtain fc where fc: "create_flowchart steps = Inr fc" ..
  show "\<forall>s\<in>set steps. step_ok (length steps) s"
  proof
    fix s assume "s \<in> set steps"
    then obtain i where i: "i < length steps" and s: "s = steps ! i"
      by (auto simp: in_set_conv_nth)
    from fc_arrows_nth[OF fc i] i
    have "\<exists>ars. connect_step (fc_nodes fc) i s = Inr ars" and "i < length (fc_nodes fc)"
      and "length (fc_nodes fc) = length steps"
      unfolding s by auto
    then show "step_ok (length steps) s"
      using connect_step_returns_iff[of i "fc_nodes fc" s] by simp
  qed
next
  assume ok: "\<forall>s\<in>set steps. step_ok (length steps) s"
  have "\<exists>ars. draw_connections (map snd (place_steps steps)) 0 steps = Inr ars"
    using ok by (intro draw_connections_returns) (simp_all add: length_place_steps)
  then show "\<exists>fc. create_flowchart steps = Inr fc"
    by (auto simp: create_flowchart_def Let_def)
qed

lemma connect_no_target:
  "no_target (length nodes) idx \<Longrightarrow> connect nodes i side idx l c = Inr []"
  by (cases idx) (simp_all add: no_target_def connect_None connect_past_end)

lemma no_arrow_without_target:
  assumes "create_flowchart steps = Inr fc" and "i < length steps"
    and "if s_type (steps ! i) = ''decision''
         then no_target (length steps) (s_yes_to (steps ! i)) \<and>
              no_target (length steps) (s_no_to (steps ! i))
         else no_target (length steps) (s_next (steps ! i))"
  shows "fc_arrows fc ! i = []"
proof -
  note st = fc_arrows_nth[OF assms(1,2)]
  have "connect_step (fc_nodes fc) i (steps ! i) = Inr []"
    using assms(3) by (simp add: connect_step_def connect_no_target st(2) split: if_splits)
  with st(1) show ?thesis by simp
qed

lemma branch_steps_returns: "\<exists>fc. create_flowchart branch_steps = Inr fc"
  unfolding create_flowchart_returns_iff
  by (simp add: branch_steps_def step_ok_def idx_ok_def)

subsection \<open>Anchors and positions\<close>

lemma spec_anchor_centred: "centred (spec_anchor x y w h)"
  by (simp add: centred_def spec_anchor_def mid_def)

lemma shape_center:
  "a_center (snd (draw_oval x y t w h c)) = (x, y)"
  "a_center (snd (draw_rect x y t w h c)) = (x, y)"
  "a_center (snd (draw_parallelogram x y t w h k c)) = (x, y)"
  "a_center (snd (draw_diamond x y t d c)) = (x, y)"
  by (simp_all add: draw_oval_def draw_rect_def draw_parallelogram_def draw_diamond_def Let_def)

lemma place_step_center:
  "a_center (snd (place_step n i s)) =
     (if s_branch s = Some ''yes'' then flow_width / 2 - 2
      else if s_branch s = Some ''no'' then flow_width / 2 + 2
      else flow_width / 2,
      flow_height n - 1 - (real i + 1) * y_spacing n)"
  by (simp add: place_step_def Let_def shape_center)

lemma y_spacing_pos: "0 < y_spacing n"
  by (simp add: y_spacing_def flow_height_def max_def)

lemma row_decreasing:
  assumes "i < j"
  shows "flow_height n - 1 - (real j + 1) * y_spacing n
           < flow_height n - 1 - (real i + 1) * y_spacing n"
proof -
  have "(real i + 1) * y_spacing n < (real j + 1) * y_spacing n"
    using assms y_spacing_pos[of n] by simp
  then show ?thesis by simp
qed

lemma place_steps_single:
  "place_steps [s] = [place_step 1 0 s]"
  by (simp add: place_steps_def enumerate_eq_zip)

subsection \<open>Replacing a step, and the linear loop\<close>

lemma place_steps_update:
  assumes "i < length steps"
    and "place_step (length steps) i s' = place_step (length steps) i (steps ! i)"
  shows "place_steps (steps[i := s']) = place_steps steps"
proof (rule nth_equalityI)
  show "length (place_steps (steps[i := s'])) = length (place_steps steps)"
    by (simp add: length_place_steps)
next
  fix j assume "j < length (place_steps (steps[i := s']))"
  then have j: "j < length steps" by (simp add: length_place_steps)
  show "place_steps (steps[i := s']) ! j = place_steps steps ! j"
    using j assms by (cases "j = i") (simp_all add: nth_place_steps)
qed

lemma draw_connections_update:
  assumes "\<And>j. connect_step nodes j s' = connect_step nodes j (steps ! i)"
    and "i < length steps"
  shows "draw_connections nodes k (steps[i := s']) = draw_connections nodes k steps"
  using assms
proof (induction steps arbitrary: i k)
  case Nil
  then show ?case by simp
next
  case (Cons s rest)
  show ?case
  proof (cases i)
    case 0
    with Cons.prems(1)[of k] show ?thesis by simp
  next
    case (Suc m)
    with Cons.prems have "draw_connections nodes (Suc k) (rest[m := s']) =
        draw_connections nodes (Suc k) rest"
      by (intro Cons.IH) simp_all
    with Suc show ?thesis by (simp cong: sum.case_cong)
  qed
qed

lemma unknown_place_step:
  assumes "s_type s \<notin> set known_types"
  shows "place_step n i s =
           draw_rect (fst (a_center (snd (place_step n i s))))
             (snd (a_center (snd (place_step n i s)))) (s_text s) 3.0 1.2 None"
    and "place_step n i (s\<lparr>s_type := ''process''\<rparr>) = place_step n i s"
    and "connect_step nodes j (s\<lparr>s_type := ''process''\<rparr>) = connect_step nodes j s"
  using assms
  by (simp_all add: known_types_def place_step_def Let_def shape_center connect_step_def)

lemma linear_loop_returns:
  assumes "length nodes = i"
  shows "\<exists>drawn'. linear_loop h i items nodes drawn =
           Inr (nodes @ map (\<lambda>(k, it). snd (place_item h k it)) (enumerate i items), drawn')"
  using assms
proof (induction items arbitrary: i nodes drawn)
  case Nil
  then show ?case by simp
next
  case (Cons it rest)
  obtain shape node where p: "place_item h i it = (shape, node)"
    by (cases "place_item h i it")
  have len: "length (nodes @ [node]) = Suc i" using Cons.prems by simp
  show ?case
  proof (cases "i > 0")
    case True
    then have "py_getitem (nodes @ [node]) (int i - 1) = Inr ((nodes @ [node]) ! (i - 1))"
      using len py_getitem_nat[of "i - 1" "nodes @ [node]"] by (simp add: of_nat_diff)
    moreover from Cons.IH[OF len] obtain d where
      "linear_loop h (Suc i) rest (nodes @ [node])
         (drawn @ shape @ draw_arrow (a_bottom ((nodes @ [node]) ! (i - 1))) (a_top node) [] False) =
       Inr ((nodes @ [node]) @ map (\<lambda>(k, it). snd (place_item h k it)) (enumerate (Suc i) rest), d)"
      by blast
    ultimately show ?thesis using True p by simp
  next
    case False
    from Cons.IH[OF len] obtain d where
      "linear_loop h (Suc i) rest (nodes @ [node]) (drawn @ shape) =
       Inr ((nodes @ [node]) @ map (\<lambda>(k, it). snd (place_item h k it)) (enumerate (Suc i) rest), d)"
      by blast
    then show ?thesis using False p by simp
  qed
qed

lemma create_linear_flowchart_returns:
  "\<exists>r. create_linear_flowchart items title = Inr r \<and>
       lf_height r = real (length items) * 2 + 2 \<and>
       lf_nodes r = map (\<lambda>(k, it). snd (place_item (real (length items) * 2 + 2) k it))
                      (enumerate 0 items)"
proof -
  let ?h = "real (length items) * 2 + 2"
  let ?heading = "if title \<noteq> [] then [Text 4 (?h - 0.5) title 14 ''#2C3E50'' ''center'' ''top'']
                  else []"
  from linear_loop_returns[of "[]" 0 ?h items ?heading] obtain d where
    "linear_loop ?h 0 items [] ?heading =
       Inr (map (\<lambda>(k, it). snd (place_item ?h k it)) (enumerate 0 items), d)"
    by auto
  then show ?thesis
    by (simp add: create_linear_flowchart_def Let_def)
qed

lemma linear_loop_update:
  assumes "\<And>k. place_item h k it' = place_item h k (items ! j)"
    and "j < length items"
  shows "linear_loop h i (items[j := it']) nodes drawn = linear_loop h i items nodes drawn"
  using assms
proof (induction items arbitrary: i j nodes drawn)
  case Nil
  then show ?case by simp
next
  case (Cons it rest)
  show ?case
  proof (cases j)
    case 0
    with Cons.prems(1)[of i] show ?thesis by simp
  next
    case (Suc m)
    have ih: "linear_loop h k (rest[m := it']) ns d = linear_loop h k rest ns d" for k ns d
      using Cons.prems Suc by (intro Cons.IH) simp_all
    show ?thesis
      unfolding Suc by (simp add: ih cong: sum.case_cong if_cong)
  qed
qed

lemma unknown_place_item:
  assumes "ty \<notin> set known_types"
  shows "place_item h k (ty, t) = draw_rect 4 (h - 2 - real k * 2) t 3.0 1.2 None"
    and "place_item h k (''process'', t) = place_item h k (ty, t)"
  using assms by (simp_all add: known_types_def place_item_def)

subsection \<open>Edges of a step\<close>

text \<open>
  Claim C1. When \<^verbatim>\<open>create_flowchart\<close> finishes, the connection loop has drawn, for a step of
  type \<^verbatim>\<open>'decision'\<close> whose \<^verbatim>\<open>yes_to\<close> and \<^verbatim>\<open>no_to\<close> are positions of the sequence,
  exactly two arrows: from the left anchor of the step to the top anchor of the
  \<^verbatim>\<open>yes_to\<close> node, labelled \<^verbatim>\<open>Yes\<close>, and from the right anchor to the top anchor of the
  \<^verbatim>\<open>no_to\<close> node, labelled \<^verbatim>\<open>No\<close>, both curved. For a step of any other type whose
  \<^verbatim>\<open>next\<close> is a position of the sequence it has drawn exactly one arrow, straight and
  without a label, from the bottom anchor of the step to the top anchor of the next node.
\<close>

theorem decision_and_next_edges:
  assumes "create_flowchart steps = Inr fc" and "i < length steps"
  shows "(s_type (steps ! i) = ''decision'' \<longrightarrow>
            (\<forall>a b. s_yes_to (steps ! i) = Some a \<and> 0 \<le> a \<and> a < int (length steps) \<and>
                   s_no_to (steps ! i) = Some b \<and> 0 \<le> b \<and> b < int (length steps) \<longrightarrow>
               fc_arrows fc ! i =
                 [\<lparr>arrow_start = a_left (fc_nodes fc ! i),
                   arrow_end = a_top (fc_nodes fc ! nat a),
                   arrow_label = ''Yes'', arrow_curved = True\<rparr>,
                  \<lparr>arrow_start = a_right (fc_nodes fc ! i),
                   arrow_end = a_top (fc_nodes fc ! nat b),
                   arrow_label = ''No'', arrow_curved = True\<rparr>])) \<and>
         (s_type (steps ! i) \<noteq> ''decision'' \<longrightarrow>
            (\<forall>c. s_next (steps ! i) = Some c \<and> 0 \<le> c \<and> c < int (length steps) \<longrightarrow>
               fc_arrows fc ! i =
                 [\<lparr>arrow_start = a_bottom (fc_nodes fc ! i),
                   arrow_end = a_top (fc_nodes fc ! nat c),
                   arrow_label = [], arrow_curved = False\<rparr>]))"
proof -
  note st = fc_arrows_nth[OF assms]
  have i: "i < length (fc_nodes fc)" using st(2) assms(2) by simp
  show ?thesis
  proof (intro conjI impI allI)
    fix a b
    assume d: "s_type (steps ! i) = ''decision''"
      and ab: "s_yes_to (steps ! i) = Some a \<and> 0 \<le> a \<and> a < int (length steps) \<and>
               s_no_to (steps ! i) = Some b \<and> 0 \<le> b \<and> b < int (length steps)"
    have "connect_step (fc_nodes fc) i (steps ! i) = Inr
            [\<lparr>arrow_start = a_left (fc_nodes fc ! i),
              arrow_end = a_top (fc_nodes fc ! nat a),
              arrow_label = ''Yes'', arrow_curved = True\<rparr>,
             \<lparr>arrow_start = a_right (fc_nodes fc ! i),
              arrow_end = a_top (fc_nodes fc ! nat b),
              arrow_label = ''No'', arrow_curved = True\<rparr>]"
      using d ab i st(2) by (simp add: connect_step_def connect_in_range)
    with st(1) show "fc_arrows fc ! i =
            [\<lparr>arrow_start = a_left (fc_nodes fc ! i),
              arrow_end = a_top (fc_nodes fc ! nat a),
              arrow_label = ''Yes'', arrow_curved = True\<rparr>,
             \<lparr>arrow_start = a_right (fc_nodes fc ! i),
              arrow_end = a_top (fc_nodes fc ! nat b),
              arrow_label = ''No'', arrow_curved = True\<rparr>]" by simp
  next
    fix c
    assume d: "s_type (steps ! i) \<noteq> ''decision''"
      and c: "s_next (steps ! i) = Some c \<and> 0 \<le> c \<and> c < int (length steps)"
    have "connect_step (fc_nodes fc) i (steps ! i) = Inr
            [\<lparr>arrow_start = a_bottom (fc_nodes fc ! i),
              arrow_end = a_top (fc_nodes fc ! nat c),
              arrow_label = [], arrow_curved = False\<rparr>]"
      using d c i st(2) by (simp add: connect_step_def connect_in_range)
    with st(1) show "fc_arrows fc ! i =
            [\<lparr>arrow_start = a_bottom (fc_nodes fc ! i),
              arrow_end = a_top (fc_nodes fc ! nat c),
              arrow_label = [], arrow_curved = False\<rparr>]" by simp
  qed
qed

theorem decision_and_next_edges_witness:
  "\<exists>fc. create_flowchart login_steps = Inr fc \<and>
        fc_arrows fc ! 1 =
          [\<lparr>arrow_start = (4.1, 8.2), arrow_end = (3, 6.4),
            arrow_label = ''Yes'', arrow_curved = True\<rparr>,
           \<lparr>arrow_start = (5.9, 8.2), arrow_end = (5, 3.9),
            arrow_label = ''No'', arrow_curved = True\<rparr>] \<and>
        fc_arrows fc ! 0 =
          [\<lparr>arrow_start = (5, 10.1), arrow_end = (5, 9.1),
            arrow_label = [], arrow_curved = False\<rparr>]"
proof -
  from login_returns obtain fc where fc: "create_flowchart login_steps = Inr fc" ..
  have nodes: "fc_nodes fc = map snd (place_steps login_steps)"
    using create_flowchart_Inr(1)[OF fc] .
  have one: "(1::nat) < length login_steps" and zero: "(0::nat) < length login_steps"
    by (simp_all add: login_steps_def)
  have len: "length login_steps = 4"
    by (simp add: login_steps_def)
  have s1: "login_steps ! 1 = \<lparr>s_type = ''decision'', s_text = ''Valid?'', s_next = None,
      s_yes_to = Some 2, s_no_to = Some 3, s_branch = None\<rparr>"
    and s0: "login_steps ! 0 = \<lparr>s_type = ''start'', s_text = ''Start'', s_next = Some 1,
      s_yes_to = None, s_no_to = None, s_branch = None\<rparr>"
    by (simp_all add: login_steps_def)
  have "fc_arrows fc ! 1 =
          [\<lparr>arrow_start = (4.1, 8.2), arrow_end = (3, 6.4),
            arrow_label = ''Yes'', arrow_curved = True\<rparr>,
           \<lparr>arrow_start = (5.9, 8.2), arrow_end = (5, 3.9),
            arrow_label = ''No'', arrow_curved = True\<rparr>]"
    using decision_and_next_edges[OF fc one] unfolding nodes login_nodes s1 len
    by (simp add: draw_oval_def draw_rect_def draw_diamond_def)
  moreover have "fc_arrows fc ! 0 =
          [\<lparr>arrow_start = (5, 10.1), arrow_end = (5, 9.1),
            arrow_label = [], arrow_curved = False\<rparr>]"
    using decision_and_next_edges[OF fc zero] unfolding nodes login_nodes s0 len
    by (simp add: draw_oval_def draw_rect_def draw_diamond_def)
  ultimately show ?thesis using fc by blast
qed

subsection \<open>Successor indices that are not positions\<close>

text \<open>
  Claim C2. A missing successor index and one past the end give no arrow (lemma
  \<open>no_arrow_without_target\<close>). A negative index does not: the guard only
  compares the index with the length, and the subscript \<^verbatim>\<open>nodes[idx]\<close> then counts from
  the end. With one step, the index \<open>-2\<close> raises \<^verbatim>\<open>IndexError\<close>, and the index \<open>-1\<close>
  draws an arrow from the bottom of the step to its own top.
\<close>

theorem negative_successor_index:
  "create_flowchart [back_step (- 2)] = Inl IndexError \<and>
   (\<exists>fc. create_flowchart [back_step (- 1)] = Inr fc \<and>
         fc_arrows fc =
           [[\<lparr>arrow_start = (5, 6.4), arrow_end = (5, 7.6),
              arrow_label = [], arrow_curved = False\<rparr>]])"
  by (simp add: create_flowchart_def place_steps_single place_step_def draw_rect_def
      flow_height_def flow_width_def y_spacing_def
      connect_step_def connect_def py_getitem_def back_step_def)

subsection \<open>Horizontal position\<close>

text \<open>
  Claim C4, as the script has it. When \<^verbatim>\<open>create_flowchart\<close> finishes, a step whose
  \<^verbatim>\<open>branch\<close> is \<^verbatim>\<open>'yes'\<close> is centred 2 units left of the horizontal centre of the canvas,
  a step whose \<^verbatim>\<open>branch\<close> is \<^verbatim>\<open>'no'\<close> 2 units right of it, and every other step at the
  horizontal centre.
\<close>

theorem branch_offset:
  assumes "create_flowchart steps = Inr fc" and "i < length steps"
  shows "fst (a_center (fc_nodes fc ! i)) =
           (if s_branch (steps ! i) = Some ''yes'' then fc_width fc / 2 - 2
            else if s_branch (steps ! i) = Some ''no'' then fc_width fc / 2 + 2
            else fc_width fc / 2)"
  using assms(2) create_flowchart_Inr(1)[OF assms(1)] create_flowchart_Inr(4)[OF assms(1)]
  by (simp add: length_place_steps nth_place_steps place_step_center)

theorem branch_offset_witness:
  "\<exists>fc. create_flowchart branch_steps = Inr fc \<and>
        fst (a_center (fc_nodes fc ! 0)) = 5 \<and>
        fst (a_center (fc_nodes fc ! 1)) = 3 \<and>
        fst (a_center (fc_nodes fc ! 2)) = 7"
proof -
  from branch_steps_returns obtain fc where fc: "create_flowchart branch_steps = Inr fc" ..
  have w: "fc_width fc = 10"
    using create_flowchart_Inr(4)[OF fc] by (simp add: flow_width_def)
  have "fst (a_center (fc_nodes fc ! 0)) = 5"
    using branch_offset[OF fc, of 0] by (simp add: branch_steps_def w)
  moreover have "fst (a_center (fc_nodes fc ! 1)) = 3"
    using branch_offset[OF fc, of 1] by (simp add: branch_steps_def w)
  moreover have "fst (a_center (fc_nodes fc ! 2)) = 7"
    using branch_offset[OF fc, of 2] by (simp add: branch_steps_def w)
  ultimately show ?thesis using fc by blast
qed

text \<open>
  Claim C4, as stated: the values \<^verbatim>\<open>'left'\<close> and \<^verbatim>\<open>'right'\<close> of \<^verbatim>\<open>branch\<close> are not the ones
  the script compares with, and a step declaring either stays at the centre.
\<close>

theorem branch_left_right_counterexample:
  "(\<exists>fc. create_flowchart [side_step ''left''] = Inr fc \<and>
         fst (a_center (fc_nodes fc ! 0)) = fc_width fc / 2) \<and>
   (\<exists>fc. create_flowchart [side_step ''right''] = Inr fc \<and>
         fst (a_center (fc_nodes fc ! 0)) = fc_width fc / 2)"
  by (simp add: create_flowchart_def place_steps_single place_step_center
      connect_step_def connect_def side_step_def)

subsection \<open>Vertical position\<close>

text \<open>
  Claim C5. When \<^verbatim>\<open>create_flowchart\<close> finishes on \<open>N\<close> steps, there are exactly \<open>N\<close> node
  anchors; the centre of step \<open>i\<close> has the vertical position
  \<open>height - 1 - (i + 1) * s\<close> with \<open>s = (height - 2) / (N + 1)\<close> and
  \<open>height = max 14 (2.5 * N)\<close>, and the vertical positions strictly decrease as the index
  grows.
\<close>

theorem vertical_positions:
  assumes "create_flowchart steps = Inr fc"
  shows "length (fc_nodes fc) = length steps \<and>
         (\<forall>i<length steps.
             snd (a_center (fc_nodes fc ! i)) =
               max 14 (2.5 * real (length steps)) - 1 -
               (real i + 1) * ((max 14 (2.5 * real (length steps)) - 2) / (real (length steps) + 1))) \<and>
         (\<forall>i j. i < j \<and> j < length steps \<longrightarrow>
             snd (a_center (fc_nodes fc ! j)) < snd (a_center (fc_nodes fc ! i)))"
proof -
  have nodes: "fc_nodes fc = map snd (place_steps steps)"
    using create_flowchart_Inr(1)[OF assms] .
  have y: "snd (a_center (fc_nodes fc ! i)) =
             flow_height (length steps) - 1 - (real i + 1) * y_spacing (length steps)"
    if "i < length steps" for i
    using that by (simp add: nodes length_place_steps nth_place_steps place_step_center)
  have h: "flow_height (length steps) = max 14 (2.5 * real (length steps))"
    by (simp add: flow_height_def mult.commute)
  show ?thesis
  proof (intro conjI allI impI)
    show "length (fc_nodes fc) = length steps"
      by (simp add: nodes length_place_steps)
  next
    fix i assume "i < length steps"
    from y[OF this] show "snd (a_center (fc_nodes fc ! i)) =
               max 14 (2.5 * real (length steps)) - 1 -
               (real i + 1) * ((max 14 (2.5 * real (length steps)) - 2) / (real (length steps) + 1))"
      unfolding y_spacing_def h .
  next
    fix i j assume ij: "i < j \<and> j < length steps"
    then have "i < length steps" by simp
    from y[OF this] y[of j] ij row_decreasing[of i j "length steps"]
    show "snd (a_center (fc_nodes fc ! j)) < snd (a_center (fc_nodes fc ! i))"
      by simp
  qed
qed

theorem vertical_positions_witness:
  "\<exists>fc. create_flowchart login_steps = Inr fc \<and>
        length (fc_nodes fc) = 4 \<and>
        snd (a_center (fc_nodes fc ! 0)) = 10.6 \<and>
        snd (a_center (fc_nodes fc ! 3)) = 3.4 \<and>
        snd (a_center (fc_nodes fc ! 3)) < snd (a_center (fc_nodes fc ! 0))"
proof -
  from login_returns obtain fc where fc: "create_flowchart login_steps = Inr fc" ..
  have len: "length login_steps = 4" by (simp add: login_steps_def)
  note v = vertical_positions[OF fc, unfolded len]
  have "length (fc_nodes fc) = 4" using v by simp
  moreover have "snd (a_center (fc_nodes fc ! 0)) = 10.6"
    using v[THEN conjunct2, THEN conjunct1, rule_format, of 0] by simp
  moreover have "snd (a_center (fc_nodes fc ! 3)) = 3.4"
    using v[THEN conjunct2, THEN conjunct1, rule_format, of 3] by simp
  moreover have "snd (a_center (fc_nodes fc ! 3)) < snd (a_center (fc_nodes fc ! 0))"
    using v[THEN conjunct2, THEN conjunct2, rule_format, of 0 3] by simp
  ultimately show ?thesis using fc by blast
qed

subsection \<open>Anchors of the shapes\<close>

text \<open>
  Claim C9. The anchors returned by \<^verbatim>\<open>draw_oval\<close>, \<^verbatim>\<open>draw_rect\<close>,
  \<^verbatim>\<open>draw_parallelogram\<close> and \<^verbatim>\<open>draw_diamond\<close> are the centre \<open>(x, y)\<close>, the top
  \<open>(x, y + h/2)\<close>, the bottom \<open>(x, y - h/2)\<close>, the left \<open>(x - w/2, y)\<close> and the right
  \<open>(x + w/2, y)\<close>, for the width \<open>w\<close> and the height \<open>h\<close> of the shape (both the size, for
  the diamond), whatever the text, the colour and the skew; so the centre is the midpoint
  of top and bottom and of left and right.
\<close>

theorem shape_anchors:
  "snd (draw_oval x y t w h c) = spec_anchor x y w h \<and>
   snd (draw_rect x y t w h c) = spec_anchor x y w h \<and>
   snd (draw_parallelogram x y t w h k c) = spec_anchor x y w h \<and>
   snd (draw_diamond x y t d c) = spec_anchor x y d d \<and>
   centred (snd (draw_oval x y t w h c)) \<and>
   centred (snd (draw_rect x y t w h c)) \<and>
   centred (snd (draw_parallelogram x y t w h k c)) \<and>
   centred (snd (draw_diamond x y t d c))"
proof -
  have o: "snd (draw_oval x y t w h c) = spec_anchor x y w h"
    by (simp add: draw_oval_def spec_anchor_def Let_def)
  have r: "snd (draw_rect x y t w h c) = spec_anchor x y w h"
    by (simp add: draw_rect_def spec_anchor_def Let_def)
  have p: "snd (draw_parallelogram x y t w h k c) = spec_anchor x y w h"
    by (simp add: draw_parallelogram_def spec_anchor_def Let_def)
  have d: "snd (draw_diamond x y t d c) = spec_anchor x y d d"
    by (simp add: draw_diamond_def spec_anchor_def Let_def)
  show ?thesis
    unfolding o r p d using spec_anchor_centred by simp
qed

subsection \<open>Unknown types\<close>

text \<open>
  Claim C10. A step whose type is none of \<^verbatim>\<open>'start'\<close>, \<^verbatim>\<open>'end'\<close>, \<^verbatim>\<open>'process'\<close>,
  \<^verbatim>\<open>'decision'\<close> and \<^verbatim>\<open>'io'\<close> is drawn by \<^verbatim>\<open>draw_rect\<close> with its default size and
  colour, and its node is the anchors of that rectangle, in \<^verbatim>\<open>create_flowchart\<close> and in
  \<^verbatim>\<open>create_linear_flowchart\<close>. The type raises no error: both functions do exactly what
  they do when the type is \<^verbatim>\<open>'process'\<close>; \<^verbatim>\<open>create_linear_flowchart\<close> always returns, and
  \<^verbatim>\<open>create_flowchart\<close> returns whenever no successor index is below \<open>- len\<close>.
\<close>

theorem unknown_type_falls_back:
  "(i < length steps \<and> s_type (steps ! i) \<notin> set known_types \<longrightarrow>
      (\<exists>x y. place_steps steps ! i = draw_rect x y (s_text (steps ! i)) 3.0 1.2 None) \<and>
      create_flowchart (steps[i := (steps ! i)\<lparr>s_type := ''process''\<rparr>]) = create_flowchart steps \<and>
      ((\<forall>s\<in>set steps. step_ok (length steps) s) \<longrightarrow>
         (\<exists>fc x y. create_flowchart steps = Inr fc \<and>
            fc_nodes fc ! i = snd (draw_rect x y (s_text (steps ! i)) 3.0 1.2 None)))) \<and>
   (j < length items \<and> fst (items ! j) \<notin> set known_types \<longrightarrow>
      (\<exists>r. create_linear_flowchart items title = Inr r \<and>
           lf_nodes r ! j =
             snd (draw_rect 4 (lf_height r - 2 - real j * 2) (snd (items ! j)) 3.0 1.2 None)) \<and>
      create_linear_flowchart (items[j := (''process'', snd (items ! j))]) title =
        create_linear_flowchart items title)"
proof (intro conjI impI)
  assume a: "i < length steps \<and> s_type (steps ! i) \<notin> set known_types"
  then have i: "i < length steps" and u: "s_type (steps ! i) \<notin> set known_types" by simp_all
  note ps = unknown_place_step[OF u]
  show rect: "\<exists>x y. place_steps steps ! i = draw_rect x y (s_text (steps ! i)) 3.0 1.2 None"
    using ps(1)[of "length steps" i] i by (auto simp: nth_place_steps)
  have same: "place_steps (steps[i := (steps ! i)\<lparr>s_type := ''process''\<rparr>]) = place_steps steps"
    using i ps(2) by (intro place_steps_update) simp_all
  have "draw_connections nodes 0 (steps[i := (steps ! i)\<lparr>s_type := ''process''\<rparr>]) =
        draw_connections nodes 0 steps" for nodes
    using i ps(3) by (intro draw_connections_update) simp_all
  then show "create_flowchart (steps[i := (steps ! i)\<lparr>s_type := ''process''\<rparr>]) =
        create_flowchart steps"
    by (simp add: create_flowchart_def same)
  assume "\<forall>s\<in>set steps. step_ok (length steps) s"
  then obtain fc where fc: "create_flowchart steps = Inr fc"
    using create_flowchart_returns_iff[of steps] by blast
  from rect obtain x y where "place_steps steps ! i = draw_rect x y (s_text (steps ! i)) 3.0 1.2 None"
    by blast
  then have "fc_nodes fc ! i = snd (draw_rect x y (s_text (steps ! i)) 3.0 1.2 None)"
    using create_flowchart_Inr(1)[OF fc] i by (simp add: length_place_steps)
  with fc show "\<exists>fc x y. create_flowchart steps = Inr fc \<and>
            fc_nodes fc ! i = snd (draw_rect x y (s_text (steps ! i)) 3.0 1.2 None)"
    by blast
next
  assume a: "j < length items \<and> fst (items ! j) \<notin> set known_types"
  then have j: "j < length items" and u: "fst (items ! j) \<notin> set known_types" by simp_all
  obtain ty t where it: "items ! j = (ty, t)" by (cases "items ! j")
  with u have ty: "ty \<notin> set known_types" by simp
  from create_linear_flowchart_returns[of items title] obtain r where
    r: "create_linear_flowchart items title = Inr r"
    and h: "lf_height r = real (length items) * 2 + 2"
    and n: "lf_nodes r = map (\<lambda>(k, it). snd (place_item (real (length items) * 2 + 2) k it))
                      (enumerate 0 items)"
    by blast
  have "lf_nodes r ! j = snd (draw_rect 4 (lf_height r - 2 - real j * 2) (snd (items ! j)) 3.0 1.2 None)"
    using j by (simp add: n h nth_enumerate_eq it unknown_place_item(1)[OF ty])
  with r show "\<exists>r. create_linear_flowchart items title = Inr r \<and>
           lf_nodes r ! j =
             snd (draw_rect 4 (lf_height r - 2 - real j * 2) (snd (items ! j)) 3.0 1.2 None)"
    by blast
  have "linear_loop h 0 (items[j := (''process'', snd (items ! j))]) ns d =
        linear_loop h 0 items ns d" for h ns d
    using j unknown_place_item(2)[OF ty] by (intro linear_loop_update) (simp_all add: it)
  then show "create_linear_flowchart (items[j := (''process'', snd (items ! j))]) title =
        create_linear_flowchart items title"
    by (simp add: create_linear_flowchart_def)
qed

theorem unknown_type_falls_back_witness:
  "(\<exists>fc. create_flowchart unknown_steps = Inr fc \<and>
         fc_nodes fc ! 0 = spec_anchor 5 7 3.0 1.2) \<and>
   (\<exists>r. create_linear_flowchart unknown_items [] = Inr r \<and>
        lf_nodes r ! 1 = spec_anchor 4 2 3.0 1.2) \<and>
   create_flowchart (unknown_steps[0 := (unknown_steps ! 0)\<lparr>s_type := ''process''\<rparr>]) =
     create_flowchart unknown_steps \<and>
   create_linear_flowchart (unknown_items[1 := (''process'', snd (unknown_items ! 1))]) [] =
     create_linear_flowchart unknown_items []"
proof -
  have i: "0 < length unknown_steps \<and> s_type (unknown_steps ! 0) \<notin> set known_types"
    by (simp add: unknown_steps_def known_types_def)
  have ok: "\<forall>s\<in>set unknown_steps. step_ok (length unknown_steps) s"
    by (simp add: unknown_steps_def step_ok_def idx_ok_def)
  have j: "1 < length unknown_items \<and> fst (unknown_items ! 1) \<notin> set known_types"
    by (simp add: unknown_items_def known_types_def)
  note t = unknown_type_falls_back[of 0 unknown_steps 1 unknown_items "[]"]
  from t i ok obtain fc x y where fc: "create_flowchart unknown_steps = Inr fc"
    and n: "fc_nodes fc ! 0 = snd (draw_rect x y (s_text (unknown_steps ! 0)) 3.0 1.2 None)"
    by blast
  have c: "a_center (fc_nodes fc ! 0) = (5, 7)"
    using create_flowchart_Inr(1)[OF fc]
    by (simp add: unknown_steps_def place_steps_single place_step_center flow_width_def
        flow_height_def y_spacing_def)
  have "(x, y) = (5, 7)" using c unfolding n by (simp add: shape_center)
  then have a: "fc_nodes fc ! 0 = spec_anchor 5 7 3.0 1.2"
    using n by (simp add: draw_rect_def spec_anchor_def)
  from t j obtain r where r: "create_linear_flowchart unknown_items [] = Inr r"
    and rn: "lf_nodes r ! 1 =
      snd (draw_rect 4 (lf_height r - 2 - real (1::nat) * 2) (snd (unknown_items ! 1)) 3.0 1.2 None)"
    by blast
  from create_linear_flowchart_returns[of unknown_items "[]"] r
  have "lf_height r = 6" by (simp add: unknown_items_def)
  then have b: "lf_nodes r ! 1 = spec_anchor 4 2 3.0 1.2"
    using rn by (simp add: draw_rect_def spec_anchor_def)
  from t i have e1: "create_flowchart (unknown_steps[0 := (unknown_steps ! 0)\<lparr>s_type := ''process''\<rparr>]) =
     create_flowchart unknown_steps" by blast
  from t j have e2: "create_linear_flowchart (unknown_items[1 := (''process'', snd (unknown_items ! 1))]) [] =
     create_linear_flowchart unknown_items []" by blast
  show ?thesis using fc a r b e1 e2 by blast
qed

section \<open>Properties of the mind map script\<close>

subsection \<open>Canvas, circle and children\<close>

lemma canvas_width_ge: "16 \<le> canvas_width bs"
  by (simp add: canvas_width_def)

lemma canvas_height_ge: "12 \<le> canvas_height bs"
  by (simp add: canvas_height_def)

lemma branch_radius_pos: "0 < min (canvas_width bs) (canvas_height bs) / 3"
  using canvas_width_ge[of bs] canvas_height_ge[of bs] by simp

lemma max_children_Max:
  assumes "bs \<noteq> []"
  shows "max_children bs = Max (set (map (\<lambda>b. length (get_children b)) bs))"
proof -
  let ?f = "\<lambda>b. length (get_children b)"
  from assms obtain b rest where bs: "bs = b # rest" by (cases bs) auto
  have "max_children bs = fold max (map ?f rest) (?f b)"
    by (simp add: max_children_def bs)
  also have "\<dots> = Max (set (?f b # map ?f rest))"
    by (rule Max.set_eq_fold[symmetric])
  also have "?f b # map ?f rest = map ?f bs"
    by (simp add: bs)
  finally show ?thesis .
qed

lemma radial_layout_returns:
  assumes "0 < count"
  shows "radial_layout c r count a =
           Inr (map (\<lambda>i. (fst c + r * cos (radians (a + real i * (360 / real_of_int count))),
                          snd c + r * sin (radians (a + real i * (360 / real_of_int count)))))
                  [0..<nat count])"
  using assms by (simp add: radial_layout_def Let_def)

lemma circle_distance:
  "distance (fst c + r * cos t, snd c + r * sin t) c = \<bar>r\<bar>"
proof -
  have "(r * cos t)\<^sup>2 + (r * sin t)\<^sup>2 = r\<^sup>2 * ((cos t)\<^sup>2 + (sin t)\<^sup>2)"
    by (simp only: power_mult_distrib distrib_left)
  also have "\<dots> = r\<^sup>2"
    by (simp only: sin_cos_squared_add2 mult_1_right)
  finally have eq: "(r * cos t)\<^sup>2 + (r * sin t)\<^sup>2 = r\<^sup>2" .
  have "distance (fst c + r * cos t, snd c + r * sin t) c =
          sqrt ((r * cos t)\<^sup>2 + (r * sin t)\<^sup>2)"
    unfolding distance_def by simp
  also have "\<dots> = sqrt (r\<^sup>2)"
    by (simp only: eq)
  also have "\<dots> = \<bar>r\<bar>"
    by (rule real_sqrt_abs)
  finally show ?thesis .
qed

lemma length_place_children: "length (place_children c p n) = n"
  by (simp add: place_children_def Let_def)

lemma nth_place_children:
  "j < n \<Longrightarrow> place_children c p n ! j = spec_child c p n j"
  by (simp add: place_children_def spec_child_def unit_direction_def distance_def
      perp_offset_def Let_def mult.commute)

lemma snd_draw_branch:
  "snd (draw_branch c i b p) = place_children c p (length (get_children b))"
  by (simp add: draw_branch_def Let_def place_children_def)

lemma create_mindmap_returns:
  assumes "d_branches d \<noteq> []"
  shows "\<exists>mm. create_mindmap d = Inr mm \<and>
          mm_width mm = canvas_width (d_branches d) \<and>
          mm_height mm = canvas_height (d_branches d) \<and>
          mm_center mm = (mm_width mm / 2, mm_height mm / 2) \<and>
          length (mm_branch_positions mm) = length (d_branches d) \<and>
          length (mm_child_positions mm) = length (d_branches d) \<and>
          (\<forall>i<length (d_branches d).
             mm_branch_positions mm ! i =
               (fst (mm_center mm) + min (mm_width mm) (mm_height mm) / 3 *
                  cos (radians (90 + real i * (360 / real (length (d_branches d))))),
                snd (mm_center mm) + min (mm_width mm) (mm_height mm) / 3 *
                  sin (radians (90 + real i * (360 / real (length (d_branches d)))))) \<and>
             mm_child_positions mm ! i =
               place_children (mm_center mm) (mm_branch_positions mm ! i)
                 (length (get_children (d_branches d ! i))))"
proof -
  have pos: "0 < int (length (d_branches d))" using assms by simp
  show ?thesis
    unfolding create_mindmap_def Let_def radial_layout_returns[OF pos]
    by (simp add: nth_enumerate_eq snd_draw_branch)
qed

lemma unit_direction_unit:
  assumes "0 < distance p c"
  shows "(fst (unit_direction c p))\<^sup>2 + (snd (unit_direction c p))\<^sup>2 = 1"
proof -
  let ?dx = "fst p - fst c" and ?dy = "snd p - snd c"
  have sq: "(distance p c)\<^sup>2 = ?dx\<^sup>2 + ?dy\<^sup>2"
    unfolding distance_def by (rule real_sqrt_pow2) simp
  have "(fst (unit_direction c p))\<^sup>2 + (snd (unit_direction c p))\<^sup>2 =
          (?dx\<^sup>2 + ?dy\<^sup>2) / (distance p c)\<^sup>2"
    by (simp add: unit_direction_def power_divide add_divide_distrib)
  also have "\<dots> = (distance p c)\<^sup>2 / (distance p c)\<^sup>2"
    by (simp only: sq)
  also have "\<dots> = 1"
    using assms by simp
  finally show ?thesis .
qed

lemma perp_offset_values:
  "perp_offset 0 1 = 0" "perp_offset 1 3 = 0" "perp_offset 0 3 = - perp_offset 2 3"
  by (simp_all add: perp_offset_def)

lemma radians_values:
  "cos (radians 90) = 0" "sin (radians 90) = 1"
  "cos (radians 270) = 0" "sin (radians 270) = - 1"
proof -
  have a: "radians 90 = pi / 2" and b: "radians 270 = pi / 2 + pi"
    by (simp_all add: radians_def)
  show "cos (radians 90) = 0" "sin (radians 90) = 1" unfolding a by simp_all
  show "cos (radians 270) = 0" "sin (radians 270) = - 1"
    unfolding b cos_periodic_pi sin_periodic_pi by simp_all
qed

lemma cos_18_162: "0 < cos (radians 18)" "cos (radians 162) < 0"
proof -
  have "- (pi / 2) < radians 18" "radians 18 < pi / 2"
    using pi_gt_zero by (simp_all add: radians_def)
  then show p: "0 < cos (radians 18)" by (rule cos_gt_zero_pi)
  have "radians 162 = pi - radians 18" by (simp add: radians_def)
  then have "cos (radians 162) = - cos (radians 18)" by (simp only: cos_pi_minus)
  with p show "cos (radians 162) < 0" by simp
qed

lemma wide_map_canvas:
  "d_branches wide_map \<noteq> []" "length (d_branches wide_map) = 6"
  "canvas_width (d_branches wide_map) = 18" "canvas_height (d_branches wide_map) = 13"
  by (simp_all add: wide_map_def canvas_width_def canvas_height_def max_children_def
      leaf_def get_children_def)

lemma one_branch_canvas:
  "d_branches one_branch \<noteq> []" "length (d_branches one_branch) = 1"
  "canvas_width (d_branches one_branch) = 16" "canvas_height (d_branches one_branch) = 12"
  "length (get_children (d_branches one_branch ! 0)) = 3"
  by (simp_all add: one_branch_def canvas_width_def canvas_height_def max_children_def
      get_children_def)

lemma five_branches_canvas:
  "d_branches five_branches \<noteq> []" "length (d_branches five_branches) = 5"
  "canvas_width (d_branches five_branches) = 16" "canvas_height (d_branches five_branches) = 12"
  by (simp_all add: five_branches_def canvas_width_def canvas_height_def max_children_def
      leaf_def get_children_def)

subsection \<open>Branches on the circle\<close>

text \<open>
  Claim C3, as the script has it. For \<open>N \<ge> 1\<close> branches \<^verbatim>\<open>create_mindmap\<close> returns, and the
  \<open>N\<close> branches lie on the circle of radius \<open>min(width, height) / 3\<close> around the centre of
  the canvas, each at exactly that distance from the centre; branch \<open>i\<close> is at the angle
  \<open>90 + i * 360 / N\<close> degrees, so the first one is at the top and the angle grows from one
  branch to the next (with the upward axis of the canvas: counter-clockwise).
\<close>

theorem radial_branch_positions:
  assumes "d_branches d \<noteq> []"
  shows "\<exists>mm. create_mindmap d = Inr mm \<and>
          length (mm_branch_positions mm) = length (d_branches d) \<and>
          mm_center mm = (mm_width mm / 2, mm_height mm / 2) \<and>
          (\<forall>i<length (d_branches d).
             mm_branch_positions mm ! i =
               (fst (mm_center mm) + min (mm_width mm) (mm_height mm) / 3 *
                  cos (radians (90 + real i * (360 / real (length (d_branches d))))),
                snd (mm_center mm) + min (mm_width mm) (mm_height mm) / 3 *
                  sin (radians (90 + real i * (360 / real (length (d_branches d)))))) \<and>
             distance (mm_branch_positions mm ! i) (mm_center mm) =
               min (mm_width mm) (mm_height mm) / 3) \<and>
          mm_branch_positions mm ! 0 =
            (fst (mm_center mm), snd (mm_center mm) + min (mm_width mm) (mm_height mm) / 3)"
proof -
  from create_mindmap_returns[OF assms] obtain mm where
    mm: "create_mindmap d = Inr mm"
    and w: "mm_width mm = canvas_width (d_branches d)"
    and h: "mm_height mm = canvas_height (d_branches d)"
    and c: "mm_center mm = (mm_width mm / 2, mm_height mm / 2)"
    and len: "length (mm_branch_positions mm) = length (d_branches d)"
    and pos: "\<And>i. i < length (d_branches d) \<Longrightarrow>
             mm_branch_positions mm ! i =
               (fst (mm_center mm) + min (mm_width mm) (mm_height mm) / 3 *
                  cos (radians (90 + real i * (360 / real (length (d_branches d))))),
                snd (mm_center mm) + min (mm_width mm) (mm_height mm) / 3 *
                  sin (radians (90 + real i * (360 / real (length (d_branches d))))))"
    by blast
  have r: "0 < min (mm_width mm) (mm_height mm) / 3"
    unfolding w h by (rule branch_radius_pos)
  have dist: "distance (mm_branch_positions mm ! i) (mm_center mm) =
               min (mm_width mm) (mm_height mm) / 3"
    if "i < length (d_branches d)" for i
    using r unfolding pos[OF that] circle_distance by simp
  have "0 < length (d_branches d)" using assms by simp
  from pos[OF this] have top: "mm_branch_positions mm ! 0 =
            (fst (mm_center mm), snd (mm_center mm) + min (mm_width mm) (mm_height mm) / 3)"
    by (simp add: radians_def)
  show ?thesis
    using mm len c pos dist top by blast
qed

theorem radial_branch_positions_witness:
  "d_branches wide_map \<noteq> [] \<and>
   (\<exists>mm. create_mindmap wide_map = Inr mm \<and>
         length (mm_branch_positions mm) = 6 \<and>
         mm_branch_positions mm ! 0 = (9, 13 / 2 + 13 / 3) \<and>
         mm_branch_positions mm ! 3 = (9, 13 / 2 - 13 / 3) \<and>
         distance (mm_branch_positions mm ! 3) (9, 13 / 2) = 13 / 3)"
proof -
  from radial_branch_positions[OF wide_map_canvas(1)] obtain mm where
    mm: "create_mindmap wide_map = Inr mm"
    and len: "length (mm_branch_positions mm) = length (d_branches wide_map)"
    and c: "mm_center mm = (mm_width mm / 2, mm_height mm / 2)"
    and pos: "\<And>i. i < length (d_branches wide_map) \<Longrightarrow>
             mm_branch_positions mm ! i =
               (fst (mm_center mm) + min (mm_width mm) (mm_height mm) / 3 *
                  cos (radians (90 + real i * (360 / real (length (d_branches wide_map))))),
                snd (mm_center mm) + min (mm_width mm) (mm_height mm) / 3 *
                  sin (radians (90 + real i * (360 / real (length (d_branches wide_map)))))) \<and>
             distance (mm_branch_positions mm ! i) (mm_center mm) =
               min (mm_width mm) (mm_height mm) / 3"
    and top: "mm_branch_positions mm ! 0 =
            (fst (mm_center mm), snd (mm_center mm) + min (mm_width mm) (mm_height mm) / 3)"
    by blast
  from create_mindmap_returns[OF wide_map_canvas(1)] mm
  have w: "mm_width mm = 18" and h: "mm_height mm = 13"
    by (auto simp: wide_map_canvas)
  have c': "mm_center mm = (9, 13 / 2)" unfolding c w h by simp
  have "(3::nat) < length (d_branches wide_map)" by (simp add: wide_map_canvas)
  note q = pos[OF this]
  have p3: "mm_branch_positions mm ! 3 = (9, 13 / 2 - 13 / 3)"
    using q[THEN conjunct1] unfolding w h c' wide_map_canvas(2)
    by (simp add: radians_values)
  have d3: "distance (mm_branch_positions mm ! 3) (9, 13 / 2) = 13 / 3"
    using q[THEN conjunct2] unfolding w h c' by simp
  have p0: "mm_branch_positions mm ! 0 = (9, 13 / 2 + 13 / 3)"
    using top unfolding w h c' by simp
  show ?thesis
    using wide_map_canvas(1) mm len p0 p3 d3 by (auto simp: wide_map_canvas(2))
qed

text \<open>
  Claim C3, as stated: with five branches the second one would be at \<open>90 - 72\<close> degrees.
  It is at \<open>90 + 72\<close> degrees, left of the centre and not right of it.
\<close>

theorem clockwise_counterexample:
  "\<exists>mm. create_mindmap five_branches = Inr mm \<and>
        mm_branch_positions mm ! 1 =
          (8 + 4 * cos (radians (90 + 72)), 6 + 4 * sin (radians (90 + 72))) \<and>
        mm_branch_positions mm ! 1 \<noteq>
          (8 + 4 * cos (radians (90 - 72)), 6 + 4 * sin (radians (90 - 72)))"
proof -
  from create_mindmap_returns[OF five_branches_canvas(1)] obtain mm where
    mm: "create_mindmap five_branches = Inr mm"
    and w: "mm_width mm = 16" and h: "mm_height mm = 12"
    and c: "mm_center mm = (mm_width mm / 2, mm_height mm / 2)"
    and pos: "\<And>i. i < length (d_branches five_branches) \<Longrightarrow>
             mm_branch_positions mm ! i =
               (fst (mm_center mm) + min (mm_width mm) (mm_height mm) / 3 *
                  cos (radians (90 + real i * (360 / real (length (d_branches five_branches))))),
                snd (mm_center mm) + min (mm_width mm) (mm_height mm) / 3 *
                  sin (radians (90 + real i * (360 / real (length (d_branches five_branches))))))"
    by (auto simp: five_branches_canvas)
  have "(1::nat) < length (d_branches five_branches)" by (simp add: five_branches_canvas)
  from pos[OF this]
  have p: "mm_branch_positions mm ! 1 =
          (8 + 4 * cos (radians (90 + 72)), 6 + 4 * sin (radians (90 + 72)))"
    unfolding c w h five_branches_canvas(2) by simp
  have "cos (radians (90 + 72)) \<noteq> cos (radians (90 - 72))"
    using cos_18_162 by simp
  then have "mm_branch_positions mm ! 1 \<noteq>
          (8 + 4 * cos (radians (90 - 72)), 6 + 4 * sin (radians (90 - 72)))"
    unfolding p by simp
  with mm p show ?thesis by blast
qed

subsection \<open>Children of a branch\<close>

text \<open>
  Claim C6. For a branch at \<open>P\<close> with the unit vector \<open>D\<close> from the centre to \<open>P\<close> (the
  distance is positive, and \<open>D\<close> has length one), child \<open>j\<close> of \<open>n\<close> is at
  \<open>P + 2 * D + (j - (n - 1) / 2) * 1.2 * (- D.y, D.x)\<close>. A single child is at \<open>P + 2 * D\<close>;
  of three children the middle one has the offset 0 and the outer two have opposite
  offsets.
\<close>

theorem child_placement:
  assumes "d_branches d \<noteq> []"
  shows "\<exists>mm. create_mindmap d = Inr mm \<and>
          length (mm_child_positions mm) = length (d_branches d) \<and>
          (\<forall>i<length (d_branches d).
             let P = mm_branch_positions mm ! i;
                 D = unit_direction (mm_center mm) P;
                 n = length (get_children (d_branches d ! i))
             in 0 < distance P (mm_center mm) \<and>
                (fst D)\<^sup>2 + (snd D)\<^sup>2 = 1 \<and>
                length (mm_child_positions mm ! i) = n \<and>
                (\<forall>j<n. mm_child_positions mm ! i ! j =
                         (fst P + 2 * fst D + (- snd D) * perp_offset j n,
                          snd P + 2 * snd D + fst D * perp_offset j n)) \<and>
                (n = 1 \<longrightarrow> mm_child_positions mm ! i = [(fst P + 2 * fst D, snd P + 2 * snd D)])) \<and>
          perp_offset 1 3 = 0 \<and> perp_offset 0 3 = - perp_offset 2 3"
proof -
  from create_mindmap_returns[OF assms] obtain mm where
    mm: "create_mindmap d = Inr mm"
    and w: "mm_width mm = canvas_width (d_branches d)"
    and h: "mm_height mm = canvas_height (d_branches d)"
    and len: "length (mm_child_positions mm) = length (d_branches d)"
    and pos: "\<And>i. i < length (d_branches d) \<Longrightarrow>
             mm_branch_positions mm ! i =
               (fst (mm_center mm) + min (mm_width mm) (mm_height mm) / 3 *
                  cos (radians (90 + real i * (360 / real (length (d_branches d))))),
                snd (mm_center mm) + min (mm_width mm) (mm_height mm) / 3 *
                  sin (radians (90 + real i * (360 / real (length (d_branches d))))))"
    and ch: "\<And>i. i < length (d_branches d) \<Longrightarrow>
             mm_child_positions mm ! i =
               place_children (mm_center mm) (mm_branch_positions mm ! i)
                 (length (get_children (d_branches d ! i)))"
    by blast
  have r: "0 < min (mm_width mm) (mm_height mm) / 3"
    unfolding w h by (rule branch_radius_pos)
  have branch: "let P = mm_branch_positions mm ! i;
                 D = unit_direction (mm_center mm) P;
                 n = length (get_children (d_branches d ! i))
             in 0 < distance P (mm_center mm) \<and>
                (fst D)\<^sup>2 + (snd D)\<^sup>2 = 1 \<and>
                length (mm_child_positions mm ! i) = n \<and>
                (\<forall>j<n. mm_child_positions mm ! i ! j =
                         (fst P + 2 * fst D + (- snd D) * perp_offset j n,
                          snd P + 2 * snd D + fst D * perp_offset j n)) \<and>
                (n = 1 \<longrightarrow> mm_child_positions mm ! i = [(fst P + 2 * fst D, snd P + 2 * snd D)])"
    if i: "i < length (d_branches d)" for i
  proof -
    let ?P = "mm_branch_positions mm ! i"
    let ?D = "unit_direction (mm_center mm) ?P"
    let ?n = "length (get_children (d_branches d ! i))"
    have d: "0 < distance ?P (mm_center mm)"
      using r unfolding pos[OF i] circle_distance by simp
    have u: "(fst ?D)\<^sup>2 + (snd ?D)\<^sup>2 = 1"
      using d by (rule unit_direction_unit)
    have l: "length (mm_child_positions mm ! i) = ?n"
      unfolding ch[OF i] by (rule length_place_children)
    have n: "mm_child_positions mm ! i ! j =
               (fst ?P + 2 * fst ?D + (- snd ?D) * perp_offset j ?n,
                snd ?P + 2 * snd ?D + fst ?D * perp_offset j ?n)" if "j < ?n" for j
      unfolding ch[OF i] nth_place_children[OF that]
      by (simp add: spec_child_def Let_def)
    have one: "mm_child_positions mm ! i = [(fst ?P + 2 * fst ?D, snd ?P + 2 * snd ?D)]"
      if one: "?n = 1"
    proof -
      have "mm_child_positions mm ! i ! 0 = (fst ?P + 2 * fst ?D, snd ?P + 2 * snd ?D)"
        using n[of 0] one by (simp add: perp_offset_def)
      moreover have "length (mm_child_positions mm ! i) = 1" using l one by simp
      ultimately show ?thesis
        by (cases "mm_child_positions mm ! i") auto
    qed
    show ?thesis
      unfolding Let_def using d u l n one by blast
  qed
  show ?thesis
    using mm len branch perp_offset_values(2,3) by blast
qed

theorem child_placement_witness:
  "d_branches one_branch \<noteq> [] \<and>
   (\<exists>mm. create_mindmap one_branch = Inr mm \<and>
         mm_branch_positions mm ! 0 = (8, 10) \<and>
         length (mm_child_positions mm ! 0) = 3 \<and>
         mm_child_positions mm ! 0 ! 0 = (9.2, 12) \<and>
         mm_child_positions mm ! 0 ! 1 = (8, 12) \<and>
         mm_child_positions mm ! 0 ! 2 = (6.8, 12))"
proof -
  from child_placement[OF one_branch_canvas(1)] obtain mm where
    mm: "create_mindmap one_branch = Inr mm"
    and ch: "\<And>i. i < length (d_branches one_branch) \<Longrightarrow>
             (let P = mm_branch_positions mm ! i;
                 D = unit_direction (mm_center mm) P;
                 n = length (get_children (d_branches one_branch ! i))
             in 0 < distance P (mm_center mm) \<and>
                (fst D)\<^sup>2 + (snd D)\<^sup>2 = 1 \<and>
                length (mm_child_positions mm ! i) = n \<and>
                (\<forall>j<n. mm_child_positions mm ! i ! j =
                         (fst P + 2 * fst D + (- snd D) * perp_offset j n,
                          snd P + 2 * snd D + fst D * perp_offset j n)) \<and>
                (n = 1 \<longrightarrow> mm_child_positions mm ! i = [(fst P + 2 * fst D, snd P + 2 * snd D)]))"
    by blast
  from create_mindmap_returns[OF one_branch_canvas(1)] mm
  have c: "mm_center mm = (8, 6)"
    and p: "mm_branch_positions mm ! 0 = (8, 10)"
    by (auto simp: one_branch_canvas radians_values)
  have D: "unit_direction (8, 6) (8, 10) = (0, 1)"
    by (simp add: unit_direction_def distance_def)
  have "(0::nat) < length (d_branches one_branch)" by (simp add: one_branch_canvas)
  from ch[OF this]
  have l: "length (mm_child_positions mm ! 0) = 3"
    and n: "\<And>j. j < 3 \<Longrightarrow> mm_child_positions mm ! 0 ! j = (8 - perp_offset j 3, 12)"
    unfolding Let_def c p D one_branch_canvas(5) by simp_all
  have "mm_child_positions mm ! 0 ! 0 = (9.2, 12)"
    "mm_child_positions mm ! 0 ! 1 = (8, 12)"
    "mm_child_positions mm ! 0 ! 2 = (6.8, 12)"
    by (simp_all add: n perp_offset_def)
  with one_branch_canvas(1) mm p l show ?thesis by blast
qed

subsection \<open>No branches\<close>

text \<open>
  Claim C7. An empty list of steps gives a flowchart without nodes and arrows, but a mind
  map without branches does not complete: \<^verbatim>\<open>radial_layout\<close> is called with the count 0
  and \<^verbatim>\<open>360 / count\<close> raises \<^verbatim>\<open>ZeroDivisionError\<close>.
\<close>

theorem zero_branches_raise:
  "create_mindmap empty_map = Inl ZeroDivisionError \<and>
   (\<exists>fc. create_flowchart [] = Inr fc \<and> fc_nodes fc = [] \<and> fc_arrows fc = [])"
  by (simp add: create_mindmap_def radial_layout_def empty_map_def
      create_flowchart_def place_steps_def)

subsection \<open>Size of the canvas\<close>

text \<open>
  Claim C8. For \<open>N \<ge> 1\<close> branches with at most \<open>M\<close> children each (\<open>M\<close> reached),
  \<^verbatim>\<open>create_mindmap\<close> returns a canvas of width at least \<open>max 16 (3 * N)\<close> and of height at
  least \<open>max 12 (4 + 1.5 * M)\<close>.
\<close>

theorem canvas_size:
  assumes "d_branches d \<noteq> []"
  shows "\<exists>mm. create_mindmap d = Inr mm \<and>
          max 16 (3 * real (length (d_branches d))) \<le> mm_width mm \<and>
          max 12 (4 + 1.5 * real (Max (set (map (\<lambda>b. length (get_children b)) (d_branches d)))))
            \<le> mm_height mm"
proof -
  from create_mindmap_returns[OF assms] obtain mm where
    mm: "create_mindmap d = Inr mm"
    and w: "mm_width mm = canvas_width (d_branches d)"
    and h: "mm_height mm = canvas_height (d_branches d)"
    by blast
  have "max 16 (3 * real (length (d_branches d))) \<le> mm_width mm"
    unfolding w canvas_width_def by (simp add: mult.commute)
  moreover have "max 12 (4 + 1.5 * real (Max (set (map (\<lambda>b. length (get_children b)) (d_branches d)))))
            \<le> mm_height mm"
    unfolding h canvas_height_def max_children_Max[OF assms] by (simp add: mult.commute)
  ultimately show ?thesis using mm by blast
qed

theorem canvas_size_witness:
  "d_branches wide_map \<noteq> [] \<and>
   (\<exists>mm. create_mindmap wide_map = Inr mm \<and> 18 \<le> mm_width mm \<and> 13 \<le> mm_height mm)"
proof -
  have m: "Max (set (map (\<lambda>b. length (get_children b)) (d_branches wide_map))) = 6"
    by (simp add: wide_map_def leaf_def get_children_def)
  from canvas_size[OF wide_map_canvas(1)] obtain mm where
    "create_mindmap wide_map = Inr mm" "18 \<le> mm_width mm" "13 \<le> mm_height mm"
    unfolding m wide_map_canvas(2) by auto
  with wide_map_canvas(1) show ?thesis by blast
qed

end
